theory Spec2Isabelle
  imports Main "HOL-Library.Sublist"
begin

section \<open>The session provider of src/contexts/AuthContext.tsx\<close>

text \<open>
  The provider holds three pieces of React state (\<open>user\<close>, \<open>userProfile\<close>,
  \<open>loading\<close>) and talks to one collaborator, the Supabase client. The embedding
  passes the state explicitly. Every effect the source performs (a call of the client,
  a console line, a state setter) is appended to a trace, in program order, so that
  "no backend call" and "first clears, then calls" are statements about that trace.

  The client is not code of this module: its answers are a parameter, a record of
  functions from a request to a response. An awaited call can resolve with data,
  resolve with an \<open>error\<close> field, or reject.

  Each operation is run to completion from the state it starts in: the interleaving
  of two pending operations is outside the model. What a handler reads from the
  render that created it, instead of from the state at the time of the call, is an
  argument of its own.
\<close>

subsection \<open>Data\<close>

text \<open>
  A JavaScript object is a finite map from property names to values. The rows of the
  \<open>users\<close> table and the \<open>Partial<User>\<close> argument of \<open>updateProfile\<close> are such
  objects; the \<open>User\<close> interface itself lives in \<open>../types\<close>, and the properties the
  module writes are those of \<open>mockProfile\<close>.
\<close>

datatype jsval = JUndefined | JNull | JStr string

type_synonym jsobject = "string \<rightharpoonup> jsval"

text \<open>The fields of \<open>SupabaseUser\<close> that \<open>mockUser\<close> fills in.\<close>

record supabase_user =
  user_id :: string
  email :: string
  created_at :: string
  updated_at :: string

record session =
  session_user :: supabase_user

type_synonym backend_error = string

datatype 'a response = Resolved 'a | ResolvedError backend_error | Rejected backend_error

record supabase =
  auth_getSession :: "session option response"
  from_users_select_single :: "string \<Rightarrow> jsobject response"
  auth_signInWithPassword :: "string \<Rightarrow> string \<Rightarrow> unit response"
  auth_signOut :: "unit response"
  from_users_update :: "jsobject \<Rightarrow> string \<Rightarrow> unit response"

text \<open>What a rejected promise carries: a fresh \<open>Error\<close> or the backend's own error.\<close>

datatype exn = Error string | BackendError backend_error

datatype outcome = Resolves | Throws exn

datatype effect =
    GetSession
  | SelectUsersSingle string
  | SignInWithPassword string string
  | AuthSignOut
  | UpdateUsers jsobject string
  | ConsoleError string backend_error
  | ConsoleLog string
  | SetUser "supabase_user option"
  | SetUserProfile "jsobject option"
  | SetLoading bool

record auth_state =
  user :: "supabase_user option"
  userProfile :: "jsobject option"
  loading :: bool

record world =
  st :: auth_state
  trace :: "effect list"

fun is_backend_call :: "effect \<Rightarrow> bool" where
  "is_backend_call GetSession = True"
| "is_backend_call (SelectUsersSingle _) = True"
| "is_backend_call (SignInWithPassword _ _) = True"
| "is_backend_call AuthSignOut = True"
| "is_backend_call (UpdateUsers _ _) = True"
| "is_backend_call _ = False"

fun is_state_write :: "effect \<Rightarrow> bool" where
  "is_state_write (SetUser _) = True"
| "is_state_write (SetUserProfile _) = True"
| "is_state_write (SetLoading _) = True"
| "is_state_write _ = False"

fun is_set_loading :: "effect \<Rightarrow> bool" where
  "is_set_loading (SetLoading _) = True"
| "is_set_loading _ = False"

subsection \<open>Primitive effects\<close>

definition emit :: "effect \<Rightarrow> world \<Rightarrow> world" where
  "emit e w = w\<lparr>trace := trace w @ [e]\<rparr>"

definition setUser :: "supabase_user option \<Rightarrow> world \<Rightarrow> world" where
  "setUser u w = emit (SetUser u) (w\<lparr>st := (st w)\<lparr>user := u\<rparr>\<rparr>)"

text \<open>\<open>setUserProfile\<close> takes an updater, as the functional form of the setter does.\<close>

definition setUserProfile :: "(jsobject option \<Rightarrow> jsobject option) \<Rightarrow> world \<Rightarrow> world" where
  "setUserProfile f w =
     (let p = f (userProfile (st w))
      in emit (SetUserProfile p) (w\<lparr>st := (st w)\<lparr>userProfile := p\<rparr>\<rparr>))"

definition setLoading :: "bool \<Rightarrow> world \<Rightarrow> world" where
  "setLoading b w = emit (SetLoading b) (w\<lparr>st := (st w)\<lparr>loading := b\<rparr>\<rparr>)"

text \<open>The three \<open>useState\<close> initial values.\<close>

definition AuthProvider_initial :: world where
  "AuthProvider_initial =
     \<lparr>st = \<lparr>user = None, userProfile = None, loading = True\<rparr>, trace = []\<rparr>"

subsection \<open>Operations\<close>

text \<open>
  \<open>fetchUserProfile\<close>: the \<open>try\<close> block awaits the row and throws a reported error;
  the \<open>catch\<close> block logs whatever was thrown; the \<open>finally\<close> block clears the flag.
\<close>

definition fetchUserProfile :: "supabase \<Rightarrow> string \<Rightarrow> world \<Rightarrow> outcome \<times> world" where
  "fetchUserProfile sb userId w =
     (let w1 = emit (SelectUsersSingle userId) w;
          w2 = (case from_users_select_single sb userId of
                  Resolved data \<Rightarrow> setUserProfile (\<lambda>_. Some data) w1
                | ResolvedError e \<Rightarrow> emit (ConsoleError ''Error fetching user profile:'' e) w1
                | Rejected e \<Rightarrow> emit (ConsoleError ''Error fetching user profile:'' e) w1)
      in (Resolves, setLoading False w2))"

text \<open>The callback given to \<open>getSession().then\<close> in \<open>useEffect\<close>.\<close>

definition getSession_then :: "supabase \<Rightarrow> session option \<Rightarrow> world \<Rightarrow> world" where
  "getSession_then sb sess w =
     (let w1 = setUser (map_option session_user sess) w
      in case sess of
           Some s \<Rightarrow> snd (fetchUserProfile sb (user_id (session_user s)) w1)
         | None \<Rightarrow> setLoading False w1)"

text \<open>
  The first half of \<open>useEffect\<close>. A response with an \<open>error\<close> field carries
  \<open>data.session = null\<close>; a rejected promise never runs the callback.
\<close>

definition useEffect_getSession :: "supabase \<Rightarrow> world \<Rightarrow> world" where
  "useEffect_getSession sb w =
     (let w1 = emit GetSession w
      in case auth_getSession sb of
           Resolved sess \<Rightarrow> getSession_then sb sess w1
         | ResolvedError e \<Rightarrow> getSession_then sb None w1
         | Rejected e \<Rightarrow> w1)"

text \<open>The callback given to \<open>onAuthStateChange\<close>; its \<open>event\<close> argument is unused.\<close>

definition onAuthStateChange_callback :: "supabase \<Rightarrow> session option \<Rightarrow> world \<Rightarrow> outcome \<times> world" where
  "onAuthStateChange_callback sb sess w =
     (let w1 = setUser (map_option session_user sess) w
      in case sess of
           Some s \<Rightarrow> fetchUserProfile sb (user_id (session_user s)) w1
         | None \<Rightarrow> (Resolves, setLoading False (setUserProfile (\<lambda>_. None) w1)))"

text \<open>
  \<open>signIn\<close>. The four \<open>new Date().toISOString()\<close> readings are \<open>clock 0\<close> to
  \<open>clock 3\<close>.
\<close>

definition mockUser :: "(nat \<Rightarrow> string) \<Rightarrow> supabase_user" where
  "mockUser clock =
     \<lparr>user_id = ''demo-user-id'',
      email = ''demo@chamber.law'',
      created_at = clock 0,
      updated_at = clock 1\<rparr>"

definition mockProfile :: "(nat \<Rightarrow> string) \<Rightarrow> jsobject" where
  "mockProfile clock =
     [''id'' \<mapsto> JStr ''demo-user-id'',
      ''tenant_id'' \<mapsto> JStr ''demo-tenant'',
      ''email'' \<mapsto> JStr ''demo@chamber.law'',
      ''role'' \<mapsto> JStr ''senior_lawyer'',
      ''name'' \<mapsto> JStr ''Demo User'',
      ''language'' \<mapsto> JStr ''en'',
      ''created_at'' \<mapsto> JStr (clock 2),
      ''updated_at'' \<mapsto> JStr (clock 3)]"

definition signIn :: "supabase \<Rightarrow> (nat \<Rightarrow> string) \<Rightarrow> string \<Rightarrow> string \<Rightarrow> world \<Rightarrow> outcome \<times> world" where
  "signIn sb clock em password w =
     (if em = ''demo@chamber.law'' \<and> password = ''demo123456'' then
        (Resolves, setUserProfile (\<lambda>_. Some (mockProfile clock)) (setUser (Some (mockUser clock)) w))
      else
        (let w1 = emit (SignInWithPassword em password) w
         in case auth_signInWithPassword sb em password of
              Resolved _ \<Rightarrow> (Resolves, w1)
            | ResolvedError e \<Rightarrow>
                (Throws (Error ''Invalid credentials. Please try demo@chamber.law / demo123456''), w1)
            | Rejected e \<Rightarrow>
                (Throws (Error ''Invalid credentials. Please try demo@chamber.law / demo123456''), w1)))"

text \<open>\<open>signOut\<close>: the \<open>error\<close> field of a resolved sign-out is never read.\<close>

definition signOut :: "supabase \<Rightarrow> world \<Rightarrow> outcome \<times> world" where
  "signOut sb w =
     (let w1 = setUserProfile (\<lambda>_. None) (setUser None w);
          w2 = emit AuthSignOut w1
      in case auth_signOut sb of
           Resolved _ \<Rightarrow> (Resolves, w2)
         | ResolvedError e \<Rightarrow> (Resolves, w2)
         | Rejected e \<Rightarrow> (Resolves, emit (ConsoleLog ''Supabase signOut skipped in demo mode'') w2))"

text \<open>
  \<open>updateProfile\<close>. The handler closes over the \<open>user\<close> constant of the render that
  created it: the test \<open>if (!user)\<close> and \<open>user.id\<close> read that captured value, the
  argument \<open>captured\<close>, whatever the state is when the handler runs. The handler of
  the current render is \<open>updateProfile sb (user (st w)) updates w\<close>. Only the
  functional updater of \<open>setUserProfile\<close> reads the state at the time of the call.
  The object spread \<open>{ ...prev, ...updates }\<close> is map override: every own property of
  \<open>updates\<close> wins, every other property of \<open>prev\<close> stays.
\<close>

definition updateProfile ::
    "supabase \<Rightarrow> supabase_user option \<Rightarrow> jsobject \<Rightarrow> world \<Rightarrow> outcome \<times> world" where
  "updateProfile sb captured updates w =
     (case captured of
        None \<Rightarrow> (Throws (Error ''No user logged in''), w)
      | Some u \<Rightarrow>
          (let w1 = emit (UpdateUsers updates (user_id u)) w
           in case from_users_update sb updates (user_id u) of
                ResolvedError e \<Rightarrow> (Throws (BackendError e), w1)
              | Rejected e \<Rightarrow> (Throws (BackendError e), w1)
              | Resolved _ \<Rightarrow>
                  (Resolves,
                   setUserProfile (\<lambda>prev. case prev of
                                            Some p \<Rightarrow> Some (p ++ updates)
                                          | None \<Rightarrow> None) w1)))"

subsection \<open>Vocabulary of the properties\<close>

text \<open>The error text of a failed call, whichever way it failed.\<close>

fun failure_text :: "'a response \<Rightarrow> backend_error option" where
  "failure_text (Resolved _) = None"
| "failure_text (ResolvedError e) = Some e"
| "failure_text (Rejected e) = Some e"

text \<open>The effects an operation added to the trace of the world it started in.\<close>

definition new_effects :: "world \<Rightarrow> world \<Rightarrow> effect list" where
  "new_effects w w' = drop (length (trace w)) (trace w')"

text \<open>
  Replaying the state writes of a trace gives the state after each of its prefixes,
  which is how "the flag stays true until ..." is said.
\<close>

fun apply_write :: "effect \<Rightarrow> auth_state \<Rightarrow> auth_state" where
  "apply_write (SetUser u) s = s\<lparr>user := u\<rparr>"
| "apply_write (SetUserProfile p) s = s\<lparr>userProfile := p\<rparr>"
| "apply_write (SetLoading b) s = s\<lparr>loading := b\<rparr>"
| "apply_write _ s = s"

definition replay :: "effect list \<Rightarrow> auth_state \<Rightarrow> auth_state" where
  "replay es s = fold apply_write es s"

text \<open>The invariant of the data model: a cached profile belongs to the cached identity.\<close>

definition profile_matches_identity :: "auth_state \<Rightarrow> bool" where
  "profile_matches_identity s =
     (case user s of
        None \<Rightarrow> True
      | Some u \<Rightarrow> (case userProfile s of
                     None \<Rightarrow> True
                   | Some p \<Rightarrow> p ''id'' = Some (JStr (user_id u))))"

text \<open>A profile is absent, or has the given id.\<close>

definition profile_absent_or_has_id :: "string \<Rightarrow> jsobject option \<Rightarrow> bool" where
  "profile_absent_or_has_id i prof =
     (case prof of None \<Rightarrow> True | Some p \<Rightarrow> p ''id'' = Some (JStr i))"

text \<open>
  The profile query for id \<open>i\<close> returns a row with that id, or fails over a cached
  profile that is absent or has that id.
\<close>

definition fetch_keeps_identity :: "supabase \<Rightarrow> string \<Rightarrow> world \<Rightarrow> bool" where
  "fetch_keeps_identity sb i w =
     (case from_users_select_single sb i of
        Resolved row \<Rightarrow> row ''id'' = Some (JStr i)
      | ResolvedError e \<Rightarrow> profile_absent_or_has_id i (userProfile (st w))
      | Rejected e \<Rightarrow> profile_absent_or_has_id i (userProfile (st w)))"

text \<open>The handler had an identity and the remote write for it succeeded.\<close>

definition update_written :: "supabase \<Rightarrow> supabase_user option \<Rightarrow> jsobject \<Rightarrow> bool" where
  "update_written sb captured updates =
     (case captured of
        None \<Rightarrow> False
      | Some u \<Rightarrow> from_users_update sb updates (user_id u) = Resolved ())"

subsection \<open>Concrete inputs\<close>

text \<open>A backend that is unreachable: every call rejects.\<close>

definition offline :: supabase where
  "offline =
     \<lparr>auth_getSession = Rejected ''Failed to fetch'',
      from_users_select_single = (\<lambda>_. Rejected ''Failed to fetch''),
      auth_signInWithPassword = (\<lambda>_ _. Rejected ''Failed to fetch''),
      auth_signOut = Rejected ''Failed to fetch'',
      from_users_update = (\<lambda>_ _. Rejected ''Failed to fetch'')\<rparr>"

definition epoch :: "nat \<Rightarrow> string" where
  "epoch n = ''1970-01-01T00:00:00.000Z''"

definition alice :: supabase_user where
  "alice =
     \<lparr>user_id = ''u-alice'', email = ''alice@example.org'',
      created_at = ''2024-01-01T00:00:00.000Z'', updated_at = ''2024-01-01T00:00:00.000Z''\<rparr>"

definition bob :: supabase_user where
  "bob =
     \<lparr>user_id = ''u-bob'', email = ''bob@example.org'',
      created_at = ''2024-02-02T00:00:00.000Z'', updated_at = ''2024-02-02T00:00:00.000Z''\<rparr>"

definition row_of :: "string \<Rightarrow> jsobject" where
  "row_of i =
     [''id'' \<mapsto> JStr i, ''role'' \<mapsto> JStr ''junior_lawyer'',
      ''name'' \<mapsto> JStr ''Row'', ''language'' \<mapsto> JStr ''en'']"

text \<open>A backend that answers every call, with a session of \<open>alice\<close>.\<close>

definition online :: supabase where
  "online =
     \<lparr>auth_getSession = Resolved (Some \<lparr>session_user = alice\<rparr>),
      from_users_select_single = (\<lambda>i. Resolved (row_of i)),
      auth_signInWithPassword = (\<lambda>_ _. Resolved ()),
      auth_signOut = Resolved (),
      from_users_update = (\<lambda>_ _. Resolved ())\<rparr>"

text \<open>A backend that refuses every password.\<close>

definition rejecting :: supabase where
  "rejecting =
     online\<lparr>auth_signInWithPassword := (\<lambda>_ _. ResolvedError ''Invalid login credentials'')\<rparr>"

text \<open>A backend whose \<open>users\<close> table has no row for anybody.\<close>

definition rowless :: supabase where
  "rowless =
     online\<lparr>from_users_select_single :=
       (\<lambda>_. ResolvedError ''JSON object requested, multiple (or no) rows returned'')\<rparr>"

definition signed_in_alice :: world where
  "signed_in_alice =
     \<lparr>st = \<lparr>user = Some alice, userProfile = Some (row_of ''u-alice''), loading = False\<rparr>,
      trace = []\<rparr>"

text \<open>\<open>alice\<close> signed in, after her profile fetch failed.\<close>

definition fetch_failed_alice :: world where
  "fetch_failed_alice =
     \<lparr>st = \<lparr>user = Some alice, userProfile = None, loading = False\<rparr>, trace = []\<rparr>"

section \<open>Properties\<close>

subsection \<open>Helper facts about the primitive effects\<close>

lemma st_emit: "st (emit e w) = st w"
  by (simp add: emit_def)

lemma trace_emit: "trace (emit e w) = trace w @ [e]"
  by (simp add: emit_def)

lemma st_setUser: "st (setUser u w) = (st w)\<lparr>user := u\<rparr>"
  by (simp add: setUser_def emit_def)

lemma trace_setUser: "trace (setUser u w) = trace w @ [SetUser u]"
  by (simp add: setUser_def emit_def)

lemma st_setUserProfile: "st (setUserProfile f w) = (st w)\<lparr>userProfile := f (userProfile (st w))\<rparr>"
  by (simp add: setUserProfile_def emit_def Let_def)

lemma trace_setUserProfile:
  "trace (setUserProfile f w) = trace w @ [SetUserProfile (f (userProfile (st w)))]"
  by (simp add: setUserProfile_def emit_def Let_def)

lemma st_setLoading: "st (setLoading b w) = (st w)\<lparr>loading := b\<rparr>"
  by (simp add: setLoading_def emit_def)

lemma trace_setLoading: "trace (setLoading b w) = trace w @ [SetLoading b]"
  by (simp add: setLoading_def emit_def)

lemmas prim_simps = st_emit trace_emit st_setUser trace_setUser st_setUserProfile
  trace_setUserProfile st_setLoading trace_setLoading

lemma new_effects_append: "trace w' = trace w @ es \<Longrightarrow> new_effects w w' = es"
  by (simp add: new_effects_def)

lemma all_less_Suc: "(\<forall>n < Suc k. P n) = (P k \<and> (\<forall>n < k. P n))"
  by (auto simp add: less_Suc_eq)

subsection \<open>signIn\<close>

text \<open>
  C1. For the literal pair \<open>demo@chamber.law\<close> / \<open>demo123456\<close>, whatever the backend
  answers, \<open>signIn\<close> resolves, adds exactly two effects, both state writes (no call of
  the backend), and leaves an identity with id \<open>demo-user-id\<close> and a profile with role
  \<open>senior_lawyer\<close> and language \<open>en\<close>. The test of the pair is string equality: for
  every other pair the state is not written and the password sign-in of the backend
  is the one effect added.
\<close>

theorem signIn_demo_bypass:
  fixes sb clock w em password
  defines "r \<equiv> signIn sb clock ''demo@chamber.law'' ''demo123456'' w"
  shows "fst r = Resolves
    \<and> trace (snd r) = trace w @ [SetUser (Some (mockUser clock)),
                                 SetUserProfile (Some (mockProfile clock))]
    \<and> filter is_backend_call (new_effects w (snd r)) = []
    \<and> user (st (snd r)) = Some (mockUser clock)
    \<and> user_id (mockUser clock) = ''demo-user-id''
    \<and> userProfile (st (snd r)) = Some (mockProfile clock)
    \<and> mockProfile clock ''id'' = Some (JStr ''demo-user-id'')
    \<and> mockProfile clock ''role'' = Some (JStr ''senior_lawyer'')
    \<and> mockProfile clock ''language'' = Some (JStr ''en'')
    \<and> loading (st (snd r)) = loading (st w)
    \<and> (\<not> (em = ''demo@chamber.law'' \<and> password = ''demo123456'') \<longrightarrow>
          st (snd (signIn sb clock em password w)) = st w
        \<and> trace (snd (signIn sb clock em password w)) = trace w @ [SignInWithPassword em password])"
proof -
  have tr: "trace (snd r) = trace w @ [SetUser (Some (mockUser clock)),
                                      SetUserProfile (Some (mockProfile clock))]"
    by (simp add: r_def signIn_def prim_simps)
  have calls: "filter is_backend_call (new_effects w (snd r)) = []"
    by (simp add: new_effects_append [OF tr])
  have state: "st (snd r) = (st w)\<lparr>user := Some (mockUser clock),
                                   userProfile := Some (mockProfile clock)\<rparr>"
    by (simp add: r_def signIn_def prim_simps)
  have fields: "user_id (mockUser clock) = ''demo-user-id''"
      "mockProfile clock ''id'' = Some (JStr ''demo-user-id'')"
      "mockProfile clock ''role'' = Some (JStr ''senior_lawyer'')"
      "mockProfile clock ''language'' = Some (JStr ''en'')"
    by (simp_all add: mockUser_def mockProfile_def)
  have other: "st (snd (signIn sb clock em password w)) = st w
        \<and> trace (snd (signIn sb clock em password w)) = trace w @ [SignInWithPassword em password]"
    if "\<not> (em = ''demo@chamber.law'' \<and> password = ''demo123456'')"
    using that
    by (cases "auth_signInWithPassword sb em password")
       (auto simp add: signIn_def Let_def prim_simps)
  have "fst r = Resolves"
    by (simp add: r_def signIn_def)
  then show ?thesis
    using tr calls fields other by (simp add: state)
qed

theorem signIn_demo_bypass_witness:
  "\<not> (''Demo@chamber.law'' = ''demo@chamber.law'' \<and> ''demo123456'' = ''demo123456'')
   \<and> \<not> (''demo@chamber.law'' = ''demo@chamber.law'' \<and> ''demo1234'' = ''demo123456'')
   \<and> st (snd (signIn offline epoch ''Demo@chamber.law'' ''demo123456'' AuthProvider_initial))
       = st AuthProvider_initial
   \<and> trace (snd (signIn offline epoch ''Demo@chamber.law'' ''demo123456'' AuthProvider_initial))
       = [SignInWithPassword ''Demo@chamber.law'' ''demo123456'']
   \<and> trace (snd (signIn offline epoch ''demo@chamber.law'' ''demo1234'' AuthProvider_initial))
       = [SignInWithPassword ''demo@chamber.law'' ''demo1234'']
   \<and> user (st (snd (signIn offline epoch ''demo@chamber.law'' ''demo123456'' AuthProvider_initial)))
       = Some (mockUser epoch)
   \<and> trace (snd (signIn offline epoch ''demo@chamber.law'' ''demo123456'' AuthProvider_initial))
       = [SetUser (Some (mockUser epoch)), SetUserProfile (Some (mockProfile epoch))]"
proof -
  have h1: "\<not> (''Demo@chamber.law'' = ''demo@chamber.law'' \<and> ''demo123456'' = ''demo123456'')"
    by simp
  have h2: "\<not> (''demo@chamber.law'' = ''demo@chamber.law'' \<and> ''demo1234'' = ''demo123456'')"
    by simp
  have tr: "trace AuthProvider_initial = []"
    by (simp add: AuthProvider_initial_def)
  show ?thesis
    using h1 h2 tr
      signIn_demo_bypass [of offline epoch AuthProvider_initial "''Demo@chamber.law''" "''demo123456''"]
      signIn_demo_bypass [of offline epoch AuthProvider_initial "''demo@chamber.law''" "''demo1234''"]
    by simp
qed

text \<open>
  C4. For a pair other than the demo pair that the backend refuses (by an \<open>error\<close>
  field or by rejecting), \<open>signIn\<close> throws one fixed \<open>Error\<close>. Its message contains
  both demo credentials, and it is the same whatever the backend's error text was:
  the backend's error is not part of what is thrown. No state is written.
\<close>

theorem signIn_rejected_generic_error:
  fixes sb clock em password w e
  defines "r \<equiv> signIn sb clock em password w"
  assumes "\<not> (em = ''demo@chamber.law'' \<and> password = ''demo123456'')"
      and "failure_text (auth_signInWithPassword sb em password) = Some e"
  shows "fst r = Throws (Error ''Invalid credentials. Please try demo@chamber.law / demo123456'')
    \<and> sublist ''demo@chamber.law'' ''Invalid credentials. Please try demo@chamber.law / demo123456''
    \<and> sublist ''demo123456'' ''Invalid credentials. Please try demo@chamber.law / demo123456''
    \<and> (\<forall>sb' e'. failure_text (auth_signInWithPassword sb' em password) = Some e'
          \<longrightarrow> fst (signIn sb' clock em password w) = fst r)
    \<and> st (snd r) = st w
    \<and> trace (snd r) = trace w @ [SignInWithPassword em password]"
proof -
  have generic: "fst (signIn b clock em password w)
        = Throws (Error ''Invalid credentials. Please try demo@chamber.law / demo123456'')"
    if "failure_text (auth_signInWithPassword b em password) = Some x" for b x
    using that assms(2)
    by (cases "auth_signInWithPassword b em password") (auto simp add: signIn_def Let_def)
  have s1: "sublist ''demo@chamber.law''
              ''Invalid credentials. Please try demo@chamber.law / demo123456''"
    unfolding sublist_def
    by (rule exI [of _ "''Invalid credentials. Please try ''"],
        rule exI [of _ "'' / demo123456''"]) simp
  have s2: "sublist ''demo123456''
              ''Invalid credentials. Please try demo@chamber.law / demo123456''"
    unfolding sublist_def
    by (rule exI [of _ "''Invalid credentials. Please try demo@chamber.law / ''"],
        rule exI [of _ "''''"]) simp
  have unchanged: "st (snd r) = st w \<and> trace (snd r) = trace w @ [SignInWithPassword em password]"
    using assms(2)
    by (cases "auth_signInWithPassword sb em password")
       (auto simp add: r_def signIn_def Let_def prim_simps)
  show ?thesis
    using generic [OF assms(3)] generic s1 s2 unchanged by (simp add: r_def)
qed

theorem signIn_rejected_generic_error_witness:
  "\<not> (''alice@example.org'' = ''demo@chamber.law'' \<and> ''wrong'' = ''demo123456'')
   \<and> failure_text (auth_signInWithPassword rejecting ''alice@example.org'' ''wrong'')
       = Some ''Invalid login credentials''
   \<and> failure_text (auth_signInWithPassword offline ''alice@example.org'' ''wrong'')
       = Some ''Failed to fetch''
   \<and> fst (signIn rejecting epoch ''alice@example.org'' ''wrong'' AuthProvider_initial)
       = Throws (Error ''Invalid credentials. Please try demo@chamber.law / demo123456'')
   \<and> fst (signIn offline epoch ''alice@example.org'' ''wrong'' AuthProvider_initial)
       = fst (signIn rejecting epoch ''alice@example.org'' ''wrong'' AuthProvider_initial)
   \<and> \<not> sublist ''Invalid login credentials''
         ''Invalid credentials. Please try demo@chamber.law / demo123456''"
proof -
  have h1: "\<not> (''alice@example.org'' = ''demo@chamber.law'' \<and> ''wrong'' = ''demo123456'')"
    by simp
  have h2: "failure_text (auth_signInWithPassword rejecting ''alice@example.org'' ''wrong'')
              = Some ''Invalid login credentials''"
    by (simp add: rejecting_def online_def)
  have h3: "failure_text (auth_signInWithPassword offline ''alice@example.org'' ''wrong'')
              = Some ''Failed to fetch''"
    by (simp add: offline_def)
  have h4: "\<not> sublist ''Invalid login credentials''
         ''Invalid credentials. Please try demo@chamber.law / demo123456''"
    by code_simp
  show ?thesis
    using h1 h2 h3 h4 signIn_rejected_generic_error [OF h1 h2, of epoch AuthProvider_initial]
    by simp
qed

subsection \<open>signOut\<close>

text \<open>
  C3. From every state and for every answer of the backend, \<open>signOut\<close> resolves (it
  never throws), with the identity and the profile empty. The two clearing writes
  come first in the trace, the backend's sign-out after them; a rejected sign-out
  only adds a console line.
\<close>

theorem signOut_clears:
  fixes sb w
  defines "r \<equiv> signOut sb w"
  shows "fst r = Resolves
    \<and> user (st (snd r)) = None
    \<and> userProfile (st (snd r)) = None
    \<and> loading (st (snd r)) = loading (st w)
    \<and> trace (snd r) = trace w @ [SetUser None, SetUserProfile None, AuthSignOut]
         @ (case auth_signOut sb of
              Rejected e \<Rightarrow> [ConsoleLog ''Supabase signOut skipped in demo mode'']
            | _ \<Rightarrow> [])"
  unfolding r_def
  by (simp add: signOut_def prim_simps Let_def split: response.splits)

subsection \<open>updateProfile\<close>

text \<open>
  C2. For the handler of any render that had an identity \<open>u\<close> (the current render
  included), a cached profile \<open>P\<close> and an update \<open>U\<close> whose keys are a proper subset
  of those of \<open>P\<close>, a successful remote write leaves a cached profile that has the
  value of \<open>U\<close> at every key of \<open>U\<close>, the value of \<open>P\<close> at every other key, and the
  keys of \<open>P\<close>. The one call of the backend is the update: the row is not fetched
  again.
\<close>

theorem updateProfile_merge:
  fixes sb captured U w u P
  defines "r \<equiv> updateProfile sb captured U w"
  assumes "captured = Some u"
      and "userProfile (st w) = Some P"
      and "from_users_update sb U (user_id u) = Resolved ()"
      and "dom U \<subset> dom P"
  shows "fst r = Resolves
    \<and> (\<exists>Q. userProfile (st (snd r)) = Some Q
          \<and> (\<forall>k \<in> dom U. Q k = U k)
          \<and> (\<forall>k. k \<notin> dom U \<longrightarrow> Q k = P k)
          \<and> dom Q = dom P)
    \<and> user (st (snd r)) = user (st w)
    \<and> loading (st (snd r)) = loading (st w)
    \<and> trace (snd r) = trace w @ [UpdateUsers U (user_id u), SetUserProfile (Some (P ++ U))]
    \<and> filter is_backend_call (new_effects w (snd r)) = [UpdateUsers U (user_id u)]"
proof -
  have r: "r = (Resolves,
                setUserProfile (\<lambda>prev. case prev of Some p \<Rightarrow> Some (p ++ U) | None \<Rightarrow> None)
                  (emit (UpdateUsers U (user_id u)) w))"
    using assms(2,4) by (simp add: r_def updateProfile_def Let_def)
  have tr: "trace (snd r) = trace w @ [UpdateUsers U (user_id u), SetUserProfile (Some (P ++ U))]"
    using assms(3) by (simp add: r prim_simps)
  have calls: "filter is_backend_call (new_effects w (snd r)) = [UpdateUsers U (user_id u)]"
    by (simp add: new_effects_append [OF tr])
  have dom: "dom (P ++ U) = dom P"
    using assms(5) by auto
  have over: "\<forall>k \<in> dom U. (P ++ U) k = U k"
    by (auto simp add: map_add_dom_app_simps)
  have keep: "\<forall>k. k \<notin> dom U \<longrightarrow> (P ++ U) k = P k"
    by (simp add: map_add_dom_app_simps)
  have "userProfile (st (snd r)) = Some (P ++ U)"
    using assms(3) by (simp add: r prim_simps)
  moreover have "fst r = Resolves" "user (st (snd r)) = user (st w)"
      "loading (st (snd r)) = loading (st w)"
    by (simp_all add: r prim_simps)
  ultimately show ?thesis
    using dom over keep tr calls by simp
qed

theorem updateProfile_merge_witness:
  "user (st signed_in_alice) = Some alice
   \<and> userProfile (st signed_in_alice) = Some (row_of ''u-alice'')
   \<and> from_users_update online [''name'' \<mapsto> JStr ''Ada''] (user_id alice) = Resolved ()
   \<and> dom [''name'' \<mapsto> JStr ''Ada''] \<subset> dom (row_of ''u-alice'')
   \<and> fst (updateProfile online (user (st signed_in_alice)) [''name'' \<mapsto> JStr ''Ada'']
            signed_in_alice) = Resolves
   \<and> (\<exists>Q. userProfile (st (snd (updateProfile online (user (st signed_in_alice))
                                   [''name'' \<mapsto> JStr ''Ada''] signed_in_alice)))
            = Some Q
          \<and> Q ''name'' = Some (JStr ''Ada'')
          \<and> Q ''role'' = Some (JStr ''junior_lawyer'')
          \<and> Q ''id'' = Some (JStr ''u-alice''))
   \<and> trace (snd (updateProfile online (user (st signed_in_alice)) [''name'' \<mapsto> JStr ''Ada'']
                   signed_in_alice))
        = [UpdateUsers [''name'' \<mapsto> JStr ''Ada''] ''u-alice'',
           SetUserProfile (Some (row_of ''u-alice'' ++ [''name'' \<mapsto> JStr ''Ada'']))]"
proof -
  have h1: "user (st signed_in_alice) = Some alice"
    by (simp add: signed_in_alice_def)
  have h2: "userProfile (st signed_in_alice) = Some (row_of ''u-alice'')"
    by (simp add: signed_in_alice_def)
  have h3: "from_users_update online [''name'' \<mapsto> JStr ''Ada''] (user_id alice) = Resolved ()"
    by (simp add: online_def)
  have h4: "dom [''name'' \<mapsto> JStr ''Ada''] \<subset> dom (row_of ''u-alice'')"
    by (auto simp add: row_of_def)
  have rows: "row_of ''u-alice'' ''role'' = Some (JStr ''junior_lawyer'')"
             "row_of ''u-alice'' ''id'' = Some (JStr ''u-alice'')"
    by (simp_all add: row_of_def)
  have tr: "trace signed_in_alice = []" "user_id alice = ''u-alice''"
    by (simp_all add: signed_in_alice_def alice_def)
  note t = updateProfile_merge [OF h1 h2 h3 h4]
  from t obtain Q where
    q: "userProfile (st (snd (updateProfile online (user (st signed_in_alice))
                               [''name'' \<mapsto> JStr ''Ada''] signed_in_alice)))
          = Some Q"
       "\<forall>k \<in> dom [''name'' \<mapsto> JStr ''Ada'']. Q k = [''name'' \<mapsto> JStr ''Ada''] k"
       "\<forall>k. k \<notin> dom [''name'' \<mapsto> JStr ''Ada''] \<longrightarrow> Q k = row_of ''u-alice'' k"
    by blast
  have "Q ''name'' = Some (JStr ''Ada'')" using q(2) by simp
  moreover have "Q ''role'' = Some (JStr ''junior_lawyer'')" using q(3) rows by simp
  moreover have "Q ''id'' = Some (JStr ''u-alice'')" using q(3) rows by simp
  ultimately show ?thesis
    using h1 h2 h3 h4 q(1) tr t by simp
qed

text \<open>
  C5, as stated, fails. The test \<open>if (!user)\<close> and the \<open>user.id\<close> of the remote write
  read the identity of the render that created the handler, not the state at the
  time of the call. A handler created while \<open>alice\<close> was signed in and called after
  \<open>signOut\<close> finds no identity set, and still resolves after writing to her row.
\<close>

theorem updateProfile_no_user_counterexample:
  "user (st (snd (signOut online signed_in_alice))) = None
   \<and> fst (updateProfile online (user (st signed_in_alice)) [''name'' \<mapsto> JStr ''Ada'']
            (snd (signOut online signed_in_alice))) = Resolves
   \<and> trace (snd (updateProfile online (user (st signed_in_alice)) [''name'' \<mapsto> JStr ''Ada'']
                   (snd (signOut online signed_in_alice))))
       = [SetUser None, SetUserProfile None, AuthSignOut,
          UpdateUsers [''name'' \<mapsto> JStr ''Ada''] ''u-alice'', SetUserProfile None]"
  by (simp add: updateProfile_def signOut_def online_def signed_in_alice_def alice_def
        prim_simps Let_def)

text \<open>
  C5, amended. Whenever the identity captured by the handler is empty (as it is for
  the handler of the current render when no identity is set), \<open>updateProfile\<close>
  throws \<open>Error("No user logged in")\<close> and returns the world it was given: no call of
  the remote store is traced and no state is written. A handler that captured an
  identity never throws that error and always calls the remote store.
\<close>

theorem updateProfile_no_user:
  "(captured = None \<longrightarrow>
      updateProfile sb captured updates w = (Throws (Error ''No user logged in''), w))
   \<and> (user (st w) = None \<longrightarrow>
      updateProfile sb (user (st w)) updates w = (Throws (Error ''No user logged in''), w))
   \<and> (\<forall>u. captured = Some u \<longrightarrow>
        fst (updateProfile sb captured updates w) \<noteq> Throws (Error ''No user logged in'')
      \<and> filter is_backend_call (new_effects w (snd (updateProfile sb captured updates w)))
          = [UpdateUsers updates (user_id u)])"
proof -
  have some: "fst (updateProfile sb (Some u) updates w) \<noteq> Throws (Error ''No user logged in'')
      \<and> filter is_backend_call (new_effects w (snd (updateProfile sb (Some u) updates w)))
          = [UpdateUsers updates (user_id u)]" for u
    by (cases "from_users_update sb updates (user_id u)")
       (simp_all add: updateProfile_def Let_def prim_simps new_effects_def)
  show ?thesis
    using some by (simp add: updateProfile_def)
qed

theorem updateProfile_no_user_witness:
  "user (st AuthProvider_initial) = None
   \<and> updateProfile offline (user (st AuthProvider_initial)) [''name'' \<mapsto> JStr ''Ada'']
       AuthProvider_initial
       = (Throws (Error ''No user logged in''), AuthProvider_initial)
   \<and> updateProfile online None [''name'' \<mapsto> JStr ''Ada''] signed_in_alice
       = (Throws (Error ''No user logged in''), signed_in_alice)
   \<and> filter is_backend_call
       (new_effects AuthProvider_initial
          (snd (updateProfile offline (Some alice) [''name'' \<mapsto> JStr ''Ada''] AuthProvider_initial)))
       = [UpdateUsers [''name'' \<mapsto> JStr ''Ada''] (user_id alice)]"
proof -
  have h: "user (st AuthProvider_initial) = None"
    by (simp add: AuthProvider_initial_def)
  show ?thesis
    using h
      updateProfile_no_user [of None offline "[''name'' \<mapsto> JStr ''Ada'']" AuthProvider_initial]
      updateProfile_no_user [of None online "[''name'' \<mapsto> JStr ''Ada'']" signed_in_alice]
      updateProfile_no_user [of "Some alice" offline "[''name'' \<mapsto> JStr ''Ada'']"
                               AuthProvider_initial]
    by simp
qed

text \<open>
  C6. For the handler of any render that had an identity \<open>u\<close> (the current render
  included), when the remote update fails with error \<open>e\<close> (an \<open>error\<close> field or a
  rejection), \<open>updateProfile\<close> throws that same \<open>e\<close>, the state (identity, profile,
  loading) is the one before the call, and the update call is the only effect: no
  state setter runs.
\<close>

theorem updateProfile_remote_failure:
  fixes sb captured U w u e
  defines "r \<equiv> updateProfile sb captured U w"
  assumes "captured = Some u"
      and "failure_text (from_users_update sb U (user_id u)) = Some e"
  shows "fst r = Throws (BackendError e)
    \<and> st (snd r) = st w
    \<and> user (st (snd r)) = user (st w)
    \<and> userProfile (st (snd r)) = userProfile (st w)
    \<and> loading (st (snd r)) = loading (st w)
    \<and> trace (snd r) = trace w @ [UpdateUsers U (user_id u)]
    \<and> filter is_state_write (new_effects w (snd r)) = []"
proof -
  have "fst r = Throws (BackendError e) \<and> st (snd r) = st w
      \<and> trace (snd r) = trace w @ [UpdateUsers U (user_id u)]"
    using assms(2-)
    by (cases "from_users_update sb U (user_id u)")
       (simp_all add: r_def updateProfile_def Let_def prim_simps)
  then show ?thesis
    by (simp add: new_effects_append)
qed

theorem updateProfile_remote_failure_witness:
  "user (st signed_in_alice) = Some alice
   \<and> failure_text (from_users_update offline [''name'' \<mapsto> JStr ''Ada''] (user_id alice))
       = Some ''Failed to fetch''
   \<and> fst (updateProfile offline (user (st signed_in_alice)) [''name'' \<mapsto> JStr ''Ada'']
            signed_in_alice)
       = Throws (BackendError ''Failed to fetch'')
   \<and> st (snd (updateProfile offline (user (st signed_in_alice)) [''name'' \<mapsto> JStr ''Ada'']
                signed_in_alice))
       = st signed_in_alice"
proof -
  have h1: "user (st signed_in_alice) = Some alice"
    by (simp add: signed_in_alice_def)
  have h2: "failure_text (from_users_update offline [''name'' \<mapsto> JStr ''Ada''] (user_id alice))
              = Some ''Failed to fetch''"
    by (simp add: offline_def)
  show ?thesis
    using h1 h2 updateProfile_remote_failure [OF h1 h2] by simp
qed

text \<open>
  C10. For the handler of any render that had an identity \<open>u\<close> (the current render
  included), with no cached profile, a successful remote write leaves the cached
  profile empty: the update is sent to the remote store, and the updater given to
  \<open>setUserProfile\<close> maps the empty profile to the empty profile.
\<close>

theorem updateProfile_without_cached_profile:
  fixes sb captured U w u
  defines "r \<equiv> updateProfile sb captured U w"
  assumes "captured = Some u"
      and "userProfile (st w) = None"
      and "from_users_update sb U (user_id u) = Resolved ()"
  shows "fst r = Resolves
    \<and> userProfile (st (snd r)) = None
    \<and> st (snd r) = st w
    \<and> trace (snd r) = trace w @ [UpdateUsers U (user_id u), SetUserProfile None]"
  using assms(2-) by (simp add: r_def updateProfile_def Let_def prim_simps)

theorem updateProfile_without_cached_profile_witness:
  "user (st fetch_failed_alice) = Some alice
   \<and> userProfile (st fetch_failed_alice) = None
   \<and> from_users_update online [''name'' \<mapsto> JStr ''Ada''] (user_id alice) = Resolved ()
   \<and> fst (updateProfile online (user (st fetch_failed_alice)) [''name'' \<mapsto> JStr ''Ada'']
            fetch_failed_alice) = Resolves
   \<and> userProfile (st (snd (updateProfile online (user (st fetch_failed_alice))
                             [''name'' \<mapsto> JStr ''Ada''] fetch_failed_alice)))
       = None
   \<and> trace (snd (updateProfile online (user (st fetch_failed_alice)) [''name'' \<mapsto> JStr ''Ada'']
                   fetch_failed_alice))
       = [UpdateUsers [''name'' \<mapsto> JStr ''Ada''] ''u-alice'', SetUserProfile None]"
proof -
  have h1: "user (st fetch_failed_alice) = Some alice"
    by (simp add: fetch_failed_alice_def)
  have h2: "userProfile (st fetch_failed_alice) = None"
    by (simp add: fetch_failed_alice_def)
  have h3: "from_users_update online [''name'' \<mapsto> JStr ''Ada''] (user_id alice) = Resolved ()"
    by (simp add: online_def)
  have tr: "trace fetch_failed_alice = []" "user_id alice = ''u-alice''"
    by (simp_all add: fetch_failed_alice_def alice_def)
  show ?thesis
    using h1 h2 h3 tr updateProfile_without_cached_profile [OF h1 h2 h3] by simp
qed

subsection \<open>fetchUserProfile and initialization\<close>

text \<open>
  C7. For every identity id, \<open>fetchUserProfile\<close> resolves: it never throws to its
  caller. It always ends by clearing the loading flag (the last effect is
  \<open>setLoading(false)\<close>). When the query fails with error \<open>e\<close>, the cached profile is
  the one before the call and the effects are the query, the console line carrying
  \<open>e\<close>, and the clearing of the flag; when it succeeds, the row is cached.
\<close>

theorem fetchUserProfile_finally:
  fixes sb userId w
  defines "r \<equiv> fetchUserProfile sb userId w"
  shows "fst r = Resolves
    \<and> loading (st (snd r)) = False
    \<and> last (trace (snd r)) = SetLoading False
    \<and> user (st (snd r)) = user (st w)
    \<and> (\<forall>e. failure_text (from_users_select_single sb userId) = Some e \<longrightarrow>
           userProfile (st (snd r)) = userProfile (st w)
         \<and> trace (snd r) = trace w @ [SelectUsersSingle userId,
                                      ConsoleError ''Error fetching user profile:'' e,
                                      SetLoading False])
    \<and> (\<forall>row. from_users_select_single sb userId = Resolved row \<longrightarrow>
           userProfile (st (snd r)) = Some row
         \<and> trace (snd r) = trace w @ [SelectUsersSingle userId,
                                      SetUserProfile (Some row),
                                      SetLoading False])"
  unfolding r_def
  by (cases "from_users_select_single sb userId")
     (simp_all add: fetchUserProfile_def Let_def prim_simps)

theorem fetchUserProfile_finally_witness:
  "failure_text (from_users_select_single offline ''u-alice'') = Some ''Failed to fetch''
   \<and> from_users_select_single online ''u-bob'' = Resolved (row_of ''u-bob'')
   \<and> userProfile (st (snd (fetchUserProfile offline ''u-alice'' signed_in_alice)))
       = userProfile (st signed_in_alice)
   \<and> trace (snd (fetchUserProfile offline ''u-alice'' signed_in_alice))
       = [SelectUsersSingle ''u-alice'',
          ConsoleError ''Error fetching user profile:'' ''Failed to fetch'',
          SetLoading False]
   \<and> userProfile (st (snd (fetchUserProfile online ''u-bob'' AuthProvider_initial)))
       = Some (row_of ''u-bob'')
   \<and> loading (st (snd (fetchUserProfile online ''u-bob'' AuthProvider_initial))) = False"
proof -
  have h1: "failure_text (from_users_select_single offline ''u-alice'') = Some ''Failed to fetch''"
    by (simp add: offline_def)
  have h2: "from_users_select_single online ''u-bob'' = Resolved (row_of ''u-bob'')"
    by (simp add: online_def)
  have tr: "trace signed_in_alice = []"
    by (simp add: signed_in_alice_def)
  show ?thesis
    using h1 h2 tr
      fetchUserProfile_finally [of offline "''u-alice''" signed_in_alice]
      fetchUserProfile_finally [of online "''u-bob''" AuthProvider_initial]
    by simp
qed

text \<open>
  C8. The provider starts with \<open>loading = true\<close>. Whenever \<open>getSession\<close> answers (a
  session whose profile fetch succeeds, one whose fetch fails, or no session), the
  initialization ends with \<open>loading = false\<close>; the flag is written once, as the last
  effect, and replaying any shorter prefix of the effects still has it true. The
  auth-change callback ends with \<open>loading = false\<close> as well, from any state.
\<close>

theorem loading_until_initialized:
  fixes sb sess w
  defines "w' \<equiv> useEffect_getSession sb AuthProvider_initial"
  assumes "\<forall>e. auth_getSession sb \<noteq> Rejected e"
  shows "loading (st AuthProvider_initial) = True
    \<and> loading (st w') = False
    \<and> filter is_set_loading (trace w') = [SetLoading False]
    \<and> last (trace w') = SetLoading False
    \<and> st w' = replay (trace w') (st AuthProvider_initial)
    \<and> (\<forall>n < length (trace w').
          loading (replay (take n (trace w')) (st AuthProvider_initial)) = True)
    \<and> loading (st (snd (onAuthStateChange_callback sb sess w))) = False"
proof -
  have cb: "loading (st (snd (onAuthStateChange_callback sb sess w))) = False"
    by (cases sess; cases "from_users_select_single sb (user_id (session_user (the sess)))")
       (simp_all add: onAuthStateChange_callback_def fetchUserProfile_def Let_def prim_simps)
  have init: "loading (st AuthProvider_initial) = True"
    by (simp add: AuthProvider_initial_def)
  have then_cb: "loading (st v) = False
      \<and> filter is_set_loading (trace v) = [SetLoading False]
      \<and> last (trace v) = SetLoading False
      \<and> st v = replay (trace v) (st AuthProvider_initial)
      \<and> (\<forall>n < length (trace v).
            loading (replay (take n (trace v)) (st AuthProvider_initial)) = True)"
    if "v = getSession_then sb so (emit GetSession AuthProvider_initial)" for v so
    using that
    by (cases so; cases "from_users_select_single sb (user_id (session_user (the so)))")
       (simp_all add: getSession_then_def fetchUserProfile_def Let_def prim_simps
          AuthProvider_initial_def replay_def all_less_Suc)
  have "\<exists>so. w' = getSession_then sb so (emit GetSession AuthProvider_initial)"
    using assms(2)
    by (cases "auth_getSession sb") (auto simp add: w'_def useEffect_getSession_def Let_def)
  then obtain so where "w' = getSession_then sb so (emit GetSession AuthProvider_initial)" ..
  from then_cb [OF this] cb init show ?thesis by blast
qed

theorem loading_until_initialized_witness:
  "(\<forall>e. auth_getSession online \<noteq> Rejected e)
   \<and> loading (st (useEffect_getSession online AuthProvider_initial)) = False
   \<and> trace (useEffect_getSession online AuthProvider_initial)
       = [GetSession, SetUser (Some alice), SelectUsersSingle ''u-alice'',
          SetUserProfile (Some (row_of ''u-alice'')), SetLoading False]
   \<and> loading (replay [GetSession, SetUser (Some alice), SelectUsersSingle ''u-alice'',
                       SetUserProfile (Some (row_of ''u-alice''))] (st AuthProvider_initial)) = True"
proof -
  have h: "\<forall>e. auth_getSession online \<noteq> Rejected e"
    by (simp add: online_def)
  have tr: "trace (useEffect_getSession online AuthProvider_initial)
       = [GetSession, SetUser (Some alice), SelectUsersSingle ''u-alice'',
          SetUserProfile (Some (row_of ''u-alice'')), SetLoading False]"
    by (simp add: useEffect_getSession_def getSession_then_def fetchUserProfile_def Let_def
          prim_simps online_def AuthProvider_initial_def alice_def)
  note t = loading_until_initialized [OF h, of None AuthProvider_initial]
  have a: "loading (st (useEffect_getSession online AuthProvider_initial)) = False"
    using t by blast
  have "\<forall>n < length (trace (useEffect_getSession online AuthProvider_initial)).
           loading (replay (take n (trace (useEffect_getSession online AuthProvider_initial)))
                   (st AuthProvider_initial)) = True"
    using t by blast
  then have b: "loading (replay [GetSession, SetUser (Some alice), SelectUsersSingle ''u-alice'',
                       SetUserProfile (Some (row_of ''u-alice''))] (st AuthProvider_initial)) = True"
    by (simp add: tr all_less_Suc)
  show ?thesis
    using h tr a b by blast
qed

subsection \<open>The identity of the cached profile\<close>

text \<open>
  C9, as stated, fails, in two ways. After the demo sign-in (identity and profile
  both \<open>demo-user-id\<close>) an auth-change notification for \<open>bob\<close> arrives and the fetch
  of his row fails: \<open>setUser\<close> has run, the \<open>catch\<close> block leaves the profile as it
  was, and the provider holds the identity of \<open>bob\<close> with the demo profile. And an
  update that carries an \<open>id\<close> key other than the identity's id is merged into the
  cached profile like any other key.
\<close>

theorem identity_profile_invariant_counterexample:
  "profile_matches_identity (st AuthProvider_initial)
   \<and> profile_matches_identity
        (st (snd (signIn rowless epoch ''demo@chamber.law'' ''demo123456'' AuthProvider_initial)))
   \<and> \<not> profile_matches_identity
        (st (snd (onAuthStateChange_callback rowless (Some \<lparr>session_user = bob\<rparr>)
               (snd (signIn rowless epoch ''demo@chamber.law'' ''demo123456''
                      AuthProvider_initial)))))
   \<and> profile_matches_identity (st signed_in_alice)
   \<and> \<not> profile_matches_identity
        (st (snd (updateProfile online (user (st signed_in_alice)) [''id'' \<mapsto> JStr ''u-bob'']
               signed_in_alice)))"
  by (simp add: profile_matches_identity_def signIn_def onAuthStateChange_callback_def
        fetchUserProfile_def updateProfile_def rowless_def online_def prim_simps Let_def
        AuthProvider_initial_def signed_in_alice_def row_of_def alice_def
        mockUser_def mockProfile_def bob_def)

text \<open>
  C9, amended. The invariant holds initially and, from a state where it holds:
  \<^item> \<open>signIn\<close> and \<open>signOut\<close> preserve it;
  \<^item> \<open>updateProfile\<close> preserves it exactly when the remote write was not made or did
    not succeed, or the identity or the cached profile is empty, or the update has
    no \<open>id\<close> key, or its \<open>id\<close> is the id of the identity;
  \<^item> the initialization callback and the auth-change callback preserve it when
    there is no session;
  \<^item> with a session, each of the two callbacks ends in a state where it holds
    exactly when the profile query succeeds with a row whose \<open>id\<close> is the id asked
    for, or the query fails and the cached profile is empty or already has that id;
    the latter is the case whenever the query fails and the notification is for the
    identity already set.
\<close>

theorem identity_profile_invariant_amended:
  assumes "profile_matches_identity (st w)"
  shows "profile_matches_identity (st AuthProvider_initial)
    \<and> profile_matches_identity (st (snd (signIn sb clock em password w)))
    \<and> profile_matches_identity (st (snd (signOut sb w)))
    \<and> (profile_matches_identity (st (snd (updateProfile sb captured U w)))
         \<longleftrightarrow> (\<not> update_written sb captured U
              \<or> user (st w) = None
              \<or> userProfile (st w) = None
              \<or> U ''id'' = None
              \<or> U ''id'' = map_option (\<lambda>cur. JStr (user_id cur)) (user (st w))))
    \<and> profile_matches_identity (st (getSession_then sb None w))
    \<and> profile_matches_identity (st (snd (onAuthStateChange_callback sb None w)))
    \<and> (\<forall>s. (profile_matches_identity (st (getSession_then sb (Some s) w))
               \<longleftrightarrow> fetch_keeps_identity sb (user_id (session_user s)) w)
           \<and> (profile_matches_identity (st (snd (onAuthStateChange_callback sb (Some s) w)))
               \<longleftrightarrow> fetch_keeps_identity sb (user_id (session_user s)) w))
    \<and> (\<forall>s u0. user (st w) = Some u0 \<and> user_id u0 = user_id (session_user s)
               \<and> failure_text (from_users_select_single sb (user_id (session_user s))) \<noteq> None
          \<longrightarrow> profile_matches_identity (st (getSession_then sb (Some s) w))
            \<and> profile_matches_identity (st (snd (onAuthStateChange_callback sb (Some s) w))))"
proof -
  have init: "profile_matches_identity (st AuthProvider_initial)"
    by (simp add: profile_matches_identity_def AuthProvider_initial_def)
  have si: "profile_matches_identity (st (snd (signIn sb clock em password w)))"
  proof (cases "em = ''demo@chamber.law'' \<and> password = ''demo123456''")
    case True
    then show ?thesis
      by (simp add: signIn_def prim_simps profile_matches_identity_def mockUser_def mockProfile_def)
  next
    case False
    then have "st (snd (signIn sb clock em password w)) = st w"
      by (cases "auth_signInWithPassword sb em password")
         (auto simp add: signIn_def Let_def prim_simps)
    then show ?thesis using assms by simp
  qed
  have so: "profile_matches_identity (st (snd (signOut sb w)))"
    by (cases "auth_signOut sb")
       (simp_all add: signOut_def Let_def prim_simps profile_matches_identity_def)
  have up: "profile_matches_identity (st (snd (updateProfile sb captured U w)))
         \<longleftrightarrow> (\<not> update_written sb captured U
              \<or> user (st w) = None
              \<or> userProfile (st w) = None
              \<or> U ''id'' = None
              \<or> U ''id'' = map_option (\<lambda>cur. JStr (user_id cur)) (user (st w)))"
  proof (cases "update_written sb captured U")
    case False
    then have "st (snd (updateProfile sb captured U w)) = st w"
      by (cases captured; cases "from_users_update sb U (user_id (the captured))")
         (simp_all add: update_written_def updateProfile_def Let_def prim_simps)
    then show ?thesis using False assms by simp
  next
    case True
    then obtain u where c: "captured = Some u" "from_users_update sb U (user_id u) = Resolved ()"
      by (cases captured) (simp_all add: update_written_def)
    have state: "st (snd (updateProfile sb captured U w))
        = (st w)\<lparr>userProfile := map_option (\<lambda>p. p ++ U) (userProfile (st w))\<rparr>"
      using c
      by (cases "userProfile (st w)") (simp_all add: updateProfile_def Let_def prim_simps)
    show ?thesis
    proof (cases "user (st w)")
      case None
      then show ?thesis by (simp add: state profile_matches_identity_def)
    next
      case cur: (Some cur)
      show ?thesis
      proof (cases "userProfile (st w)")
        case None
        then show ?thesis by (simp add: state cur profile_matches_identity_def)
      next
        case (Some p)
        then have before: "p ''id'' = Some (JStr (user_id cur))"
          using assms cur by (simp add: profile_matches_identity_def)
        have "(p ++ U) ''id'' = Some (JStr (user_id cur))
            \<longleftrightarrow> (U ''id'' = None \<or> U ''id'' = Some (JStr (user_id cur)))"
          using before by (cases "U ''id''") (simp_all add: map_add_def)
        then show ?thesis
          using True by (simp add: state cur Some profile_matches_identity_def)
      qed
    qed
  qed
  have gn: "profile_matches_identity (st (getSession_then sb None w))"
    by (simp add: getSession_then_def Let_def prim_simps profile_matches_identity_def)
  have cn: "profile_matches_identity (st (snd (onAuthStateChange_callback sb None w)))"
    by (simp add: onAuthStateChange_callback_def Let_def prim_simps profile_matches_identity_def)
  have some: "(profile_matches_identity (st (getSession_then sb (Some s) w))
               \<longleftrightarrow> fetch_keeps_identity sb (user_id (session_user s)) w)
           \<and> (profile_matches_identity (st (snd (onAuthStateChange_callback sb (Some s) w)))
               \<longleftrightarrow> fetch_keeps_identity sb (user_id (session_user s)) w)" for s
    by (cases "from_users_select_single sb (user_id (session_user s))";
        cases "userProfile (st w)")
       (simp_all add: getSession_then_def onAuthStateChange_callback_def fetchUserProfile_def
          Let_def prim_simps profile_matches_identity_def fetch_keeps_identity_def
          profile_absent_or_has_id_def)
  have same: "profile_matches_identity (st (getSession_then sb (Some s) w))
            \<and> profile_matches_identity (st (snd (onAuthStateChange_callback sb (Some s) w)))"
    if "user (st w) = Some u0" "user_id u0 = user_id (session_user s)"
       "failure_text (from_users_select_single sb (user_id (session_user s))) \<noteq> None" for s u0
  proof -
    have "fetch_keeps_identity sb (user_id (session_user s)) w"
      using that assms
      by (cases "from_users_select_single sb (user_id (session_user s))";
          cases "userProfile (st w)")
         (simp_all add: fetch_keeps_identity_def profile_absent_or_has_id_def
            profile_matches_identity_def)
    then show ?thesis using some by blast
  qed
  show ?thesis
    using init si so up gn cn some same by blast
qed

theorem identity_profile_invariant_amended_witness:
  "profile_matches_identity (st signed_in_alice)
   \<and> profile_matches_identity (st fetch_failed_alice)
   \<and> update_written online (user (st signed_in_alice)) [''id'' \<mapsto> JStr ''u-alice'', ''name'' \<mapsto> JStr ''Ada'']
   \<and> fetch_keeps_identity online (user_id (session_user \<lparr>session_user = bob\<rparr>)) signed_in_alice
   \<and> fetch_keeps_identity rowless (user_id (session_user \<lparr>session_user = bob\<rparr>)) fetch_failed_alice
   \<and> failure_text (from_users_select_single rowless (user_id (session_user \<lparr>session_user = alice\<rparr>)))
       \<noteq> None
   \<and> profile_matches_identity
       (st (snd (signIn online epoch ''demo@chamber.law'' ''demo123456'' signed_in_alice)))
   \<and> profile_matches_identity (st (snd (signOut online signed_in_alice)))
   \<and> profile_matches_identity
       (st (snd (updateProfile online (user (st signed_in_alice))
              [''id'' \<mapsto> JStr ''u-alice'', ''name'' \<mapsto> JStr ''Ada''] signed_in_alice)))
   \<and> profile_matches_identity
       (st (getSession_then online (Some \<lparr>session_user = bob\<rparr>) signed_in_alice))
   \<and> profile_matches_identity
       (st (snd (onAuthStateChange_callback online (Some \<lparr>session_user = bob\<rparr>) signed_in_alice)))
   \<and> profile_matches_identity
       (st (snd (onAuthStateChange_callback rowless (Some \<lparr>session_user = bob\<rparr>) fetch_failed_alice)))
   \<and> profile_matches_identity
       (st (snd (onAuthStateChange_callback rowless (Some \<lparr>session_user = alice\<rparr>) signed_in_alice)))"
proof -
  have h1: "profile_matches_identity (st signed_in_alice)"
    by (simp add: profile_matches_identity_def signed_in_alice_def alice_def row_of_def)
  have h2: "profile_matches_identity (st fetch_failed_alice)"
    by (simp add: profile_matches_identity_def fetch_failed_alice_def)
  have h3: "update_written online (user (st signed_in_alice))
              [''id'' \<mapsto> JStr ''u-alice'', ''name'' \<mapsto> JStr ''Ada'']"
    by (simp add: update_written_def online_def signed_in_alice_def)
  have h4: "fetch_keeps_identity online (user_id (session_user \<lparr>session_user = bob\<rparr>)) signed_in_alice"
    by (simp add: fetch_keeps_identity_def online_def row_of_def)
  have h5: "fetch_keeps_identity rowless (user_id (session_user \<lparr>session_user = bob\<rparr>))
              fetch_failed_alice"
    by (simp add: fetch_keeps_identity_def rowless_def online_def fetch_failed_alice_def
          profile_absent_or_has_id_def)
  have h6: "failure_text (from_users_select_single rowless
              (user_id (session_user \<lparr>session_user = alice\<rparr>))) \<noteq> None"
    by (simp add: rowless_def online_def)
  have h7: "user (st signed_in_alice) = Some alice"
       "user_id alice = user_id (session_user \<lparr>session_user = alice\<rparr>)"
       "[''id'' \<mapsto> JStr ''u-alice'', ''name'' \<mapsto> JStr ''Ada''] ''id''
          = map_option (\<lambda>cur. JStr (user_id cur)) (user (st signed_in_alice))"
    by (simp_all add: signed_in_alice_def alice_def)
  note a = identity_profile_invariant_amended [OF h1, of online epoch "''demo@chamber.law''"
              "''demo123456''" "user (st signed_in_alice)"
              "[''id'' \<mapsto> JStr ''u-alice'', ''name'' \<mapsto> JStr ''Ada'']"]
  note b = identity_profile_invariant_amended [OF h2, of rowless epoch "''demo@chamber.law''"
              "''demo123456''" None Map.empty]
  note c = identity_profile_invariant_amended [OF h1, of rowless epoch "''demo@chamber.law''"
              "''demo123456''" None Map.empty]
  have u: "profile_matches_identity
       (st (snd (updateProfile online (user (st signed_in_alice))
              [''id'' \<mapsto> JStr ''u-alice'', ''name'' \<mapsto> JStr ''Ada''] signed_in_alice)))"
    using a h7(3) by blast
  have s1: "profile_matches_identity
       (st (snd (onAuthStateChange_callback rowless (Some \<lparr>session_user = alice\<rparr>) signed_in_alice)))"
    using c h6 h7(1,2) by blast
  have s2: "profile_matches_identity
       (st (snd (onAuthStateChange_callback rowless (Some \<lparr>session_user = bob\<rparr>) fetch_failed_alice)))"
    using b h5 by blast
  show ?thesis
    using h1 h2 h3 h4 h5 h6 u s1 s2 a by blast
qed

end
